theory Spec2Isabelle
  imports Complex_Main "HOL-Library.AList"
begin

section \<open>Selection manager (src/utils/selection.js)\<close>

text \<open>
  A marker is a JavaScript object of which the selection manager reads only the field
  \<open>id\<close>; every other field is carried along unchanged, so it is kept as a payload of an
  arbitrary type. The stored value \<open>{ ...marker, _level: level }\<close> is the marker together
  with the level written into \<open>_level\<close> (the spread is overridden by the explicit field).
  Levels and \<open>maxSelections\<close> are JavaScript numbers holding integers.
\<close>

record 'a marker =
  marker_id :: string
  marker_fields :: 'a

record 'a selected_marker =
  source_marker :: "'a marker"
  stored_level :: int

datatype reason = already_selected | level_mismatch | max_selections | not_selected

text \<open>The two template-string messages, kept with the numbers they interpolate.\<close>

datatype message =
  CannotSelectAtLevel int "int option"
| MaximumSelectionsReached int

record compatibility =
  compatible :: bool
  reason :: "reason option"
  message :: "message option"

datatype action = added | replaced | removed

text \<open>
  The result objects returned by \<open>selectMarker\<close> and \<open>deselectMarker\<close>:
  \<open>{success: true, action: 'added', marker}\<close>,
  \<open>{success: true, action: 'replaced', marker, clearedPrevious: true}\<close>,
  \<open>{success: true, action: 'removed', marker}\<close> (here the marker is the stored one) and
  \<open>{success: false, reason, message}\<close>.
\<close>

datatype 'a selection_result =
  ResultAdded "'a marker"
| ResultReplaced "'a marker" bool
| ResultRemoved "'a selected_marker"
| ResultFailed reason "message option"

fun success :: "'a selection_result \<Rightarrow> bool" where
  "success (ResultFailed r m) = False"
| "success res = True"

fun action_of :: "'a selection_result \<Rightarrow> action option" where
  "action_of (ResultAdded m) = Some added"
| "action_of (ResultReplaced m c) = Some replaced"
| "action_of (ResultRemoved m) = Some removed"
| "action_of (ResultFailed r m) = None"

text \<open>
  The manager's fields. \<open>selectedMarkers\<close> is a JavaScript \<open>Map\<close>: an association list in
  insertion order, where \<open>set\<close> on a new key appends and \<open>delete\<close> removes the entry
  (\<open>AList.update\<close> and \<open>AList.delete\<close>). The callback \<open>onSelectionChange\<close> is modelled by the
  list of selections it has been called with, oldest first.
\<close>

record 'a selection_manager =
  selectedMarkers :: "(string \<times> 'a selected_marker) list"
  selectionHierarchyLevel :: "int option"
  maxSelections :: int
  emitted :: "'a selected_marker list list"

text \<open>\<open>options.maxSelections || 10\<close>: an absent or zero option gives 10.\<close>

definition new_SelectionManager :: "int option \<Rightarrow> 'a selection_manager" where
  "new_SelectionManager opt_maxSelections =
     \<lparr> selectedMarkers = [],
       selectionHierarchyLevel = None,
       maxSelections = (case opt_maxSelections of None \<Rightarrow> 10
                        | Some n \<Rightarrow> if n = 0 then 10 else n),
       emitted = [] \<rparr>"

definition has :: "(string \<times> 'v) list \<Rightarrow> string \<Rightarrow> bool" where
  "has m key = (map_of m key \<noteq> None)"

definition getSelection :: "'a selection_manager \<Rightarrow> 'a selected_marker list" where
  "getSelection s = map snd (selectedMarkers s)"

definition getSelectedIds :: "'a selection_manager \<Rightarrow> string list" where
  "getSelectedIds s = map fst (selectedMarkers s)"

definition getSelectionCount :: "'a selection_manager \<Rightarrow> nat" where
  "getSelectionCount s = length (selectedMarkers s)"

definition emitChange :: "'a selection_manager \<Rightarrow> 'a selection_manager" where
  "emitChange s = s\<lparr> emitted := emitted s @ [getSelection s] \<rparr>"

definition isSelectionCompatible ::
  "'a selection_manager \<Rightarrow> 'a marker \<Rightarrow> int \<Rightarrow> compatibility" where
  "isSelectionCompatible s marker markerLevel =
     (if length (selectedMarkers s) = 0 then
        \<lparr> compatible = True, reason = None, message = None \<rparr>
      else if has (selectedMarkers s) (marker_id marker) then
        \<lparr> compatible = True, reason = Some already_selected, message = None \<rparr>
      else if selectionHierarchyLevel s \<noteq> Some markerLevel then
        \<lparr> compatible = False, reason = Some level_mismatch,
          message = Some (CannotSelectAtLevel markerLevel (selectionHierarchyLevel s)) \<rparr>
      else if int (length (selectedMarkers s)) \<ge> maxSelections s then
        \<lparr> compatible = False, reason = Some max_selections,
          message = Some (MaximumSelectionsReached (maxSelections s)) \<rparr>
      else \<lparr> compatible = True, reason = None, message = None \<rparr>)"

definition clearSelection :: "'a selection_manager \<Rightarrow> bool \<Rightarrow> 'a selection_manager" where
  "clearSelection s emit =
     (let s1 = s\<lparr> selectedMarkers := [], selectionHierarchyLevel := None \<rparr>
      in if emit then emitChange s1 else s1)"

definition deselectMarker ::
  "'a selection_manager \<Rightarrow> string \<Rightarrow> 'a selection_result \<times> 'a selection_manager" where
  "deselectMarker s markerId =
     (case map_of (selectedMarkers s) markerId of
        None \<Rightarrow> (ResultFailed not_selected None, s)
      | Some marker \<Rightarrow>
          (let s1 = s\<lparr> selectedMarkers := AList.delete markerId (selectedMarkers s) \<rparr>;
               s2 = (if length (selectedMarkers s1) = 0
                     then s1\<lparr> selectionHierarchyLevel := None \<rparr> else s1)
           in (ResultRemoved marker, emitChange s2)))"

definition selectMarker ::
  "'a selection_manager \<Rightarrow> 'a marker \<Rightarrow> int \<Rightarrow> bool \<Rightarrow>
     'a selection_result \<times> 'a selection_manager" where
  "selectMarker s marker level isMultiSelect =
     (if has (selectedMarkers s) (marker_id marker) then deselectMarker s (marker_id marker)
      else
        let compatibility = isSelectionCompatible s marker level in
        if \<not> compatible compatibility \<and> reason compatibility = Some level_mismatch then
          (let s1 = clearSelection s False;
               s2 = s1\<lparr> selectedMarkers :=
                        AList.update (marker_id marker)
                          \<lparr> source_marker = marker, stored_level = level \<rparr>
                          (selectedMarkers s1) \<rparr>;
               s3 = s2\<lparr> selectionHierarchyLevel := Some level \<rparr>
           in (ResultReplaced marker True, emitChange s3))
        else if \<not> compatible compatibility \<and> reason compatibility = Some max_selections then
          (ResultFailed max_selections (message compatibility), s)
        else
          (let s1 = (if \<not> isMultiSelect \<and> length (selectedMarkers s) > 0
                     then clearSelection s False else s);
               s2 = s1\<lparr> selectedMarkers :=
                        AList.update (marker_id marker)
                          \<lparr> source_marker = marker, stored_level = level \<rparr>
                          (selectedMarkers s1) \<rparr>;
               s3 = s2\<lparr> selectionHierarchyLevel := Some level \<rparr>
           in (ResultAdded marker, emitChange s3)))"

definition toggleSelection ::
  "'a selection_manager \<Rightarrow> 'a marker \<Rightarrow> int \<Rightarrow> bool \<Rightarrow>
     'a selection_result \<times> 'a selection_manager" where
  "toggleSelection s marker level isMultiSelect =
     (if has (selectedMarkers s) (marker_id marker) then deselectMarker s (marker_id marker)
      else selectMarker s marker level isMultiSelect)"

text \<open>
  The loop of \<open>pruneInvalidSelections\<close>: it walks the keys of the map and deletes, from the
  map it is walking, each key that is not in \<open>existingSet\<close>, setting \<open>changed\<close>.
\<close>

fun prune_loop ::
  "string list \<Rightarrow> string set \<Rightarrow> (string \<times> 'v) list \<times> bool \<Rightarrow> (string \<times> 'v) list \<times> bool" where
  "prune_loop [] existingSet (m, changed) = (m, changed)"
| "prune_loop (markerId # keys) existingSet (m, changed) =
     (if markerId \<notin> existingSet
      then prune_loop keys existingSet (AList.delete markerId m, True)
      else prune_loop keys existingSet (m, changed))"

definition pruneInvalidSelections ::
  "'a selection_manager \<Rightarrow> string list \<Rightarrow> bool \<times> 'a selection_manager" where
  "pruneInvalidSelections s existingMarkerIds =
     (let existingSet = set existingMarkerIds;
          (m, changed) = prune_loop (map fst (selectedMarkers s)) existingSet
                           (selectedMarkers s, False);
          s1 = s\<lparr> selectedMarkers := m \<rparr>;
          s2 = (if length (selectedMarkers s1) = 0
                then s1\<lparr> selectionHierarchyLevel := None \<rparr> else s1);
          s3 = (if changed then emitChange s2 else s2)
      in (changed, s3))"

text \<open>A call of one of the four mutating methods, and a sequence of calls run in order.\<close>

datatype 'a call =
  SelectMarker "'a marker" int bool
| DeselectMarker string
| ClearSelection bool
| PruneInvalidSelections "string list"

fun perform :: "'a selection_manager \<Rightarrow> 'a call \<Rightarrow> 'a selection_manager" where
  "perform s (SelectMarker marker level isMultiSelect) =
     snd (selectMarker s marker level isMultiSelect)"
| "perform s (DeselectMarker markerId) = snd (deselectMarker s markerId)"
| "perform s (ClearSelection emit) = clearSelection s emit"
| "perform s (PruneInvalidSelections existingMarkerIds) =
     snd (pruneInvalidSelections s existingMarkerIds)"

definition run :: "'a selection_manager \<Rightarrow> 'a call list \<Rightarrow> 'a selection_manager" where
  "run s calls = foldl perform s calls"

text \<open>
  The selection level invariant: the map is empty exactly when the level is unset, and
  every stored marker carries the level of the selection.
\<close>

definition level_invariant :: "'a selection_manager \<Rightarrow> bool" where
  "level_invariant s =
     ((selectedMarkers s = []) = (selectionHierarchyLevel s = None) \<and>
      list_all (\<lambda>(key, m). selectionHierarchyLevel s = Some (stored_level m))
        (selectedMarkers s))"

section \<open>JavaScript values that occur as coordinates\<close>

text \<open>
  A JavaScript number is a finite value, \<open>NaN\<close> or an infinity. The comparisons of the
  source only ever compare with finite literals, and a comparison of doubles is exact, so
  a finite number is modelled by the real it denotes. A coordinate component is a number,
  \<open>undefined\<close> (also what destructuring reads past the end of the array), \<open>null\<close>, a
  boolean, or any other value (a string, an object): the source only applies \<open>typeof\<close>,
  \<open>isNaN\<close>, \<open><\<close> and \<open>>\<close> with a number to a component, and all four depend on such a value
  only through the number it converts to, so \<open>JOther\<close> carries that number (\<open>'abc'\<close> is
  \<open>JOther NaN\<close>, \<open>'200'\<close> is \<open>JOther (Finite 200)\<close>).
\<close>

datatype jsnumber = Finite real | NaN | PosInfinity | NegInfinity

datatype jsvalue = JNumber jsnumber | JUndefined | JNull | JBoolean bool | JOther jsnumber

fun toNumber :: "jsvalue \<Rightarrow> jsnumber" where
  "toNumber (JNumber n) = n"
| "toNumber JUndefined = NaN"
| "toNumber JNull = Finite 0"
| "toNumber (JBoolean b) = Finite (if b then 1 else 0)"
| "toNumber (JOther n) = n"

text \<open>The operator \<open><\<close> on numbers: false as soon as one side is \<open>NaN\<close>.\<close>

fun number_less :: "jsnumber \<Rightarrow> jsnumber \<Rightarrow> bool" where
  "number_less NaN y = False"
| "number_less x NaN = False"
| "number_less (Finite a) (Finite b) = (a < b)"
| "number_less (Finite a) PosInfinity = True"
| "number_less (Finite a) NegInfinity = False"
| "number_less PosInfinity y = False"
| "number_less NegInfinity NegInfinity = False"
| "number_less NegInfinity y = True"

definition js_less :: "jsvalue \<Rightarrow> real \<Rightarrow> bool" where
  "js_less v c = number_less (toNumber v) (Finite c)"

definition js_greater :: "jsvalue \<Rightarrow> real \<Rightarrow> bool" where
  "js_greater v c = number_less (Finite c) (toNumber v)"

fun typeof_number :: "jsvalue \<Rightarrow> bool" where
  "typeof_number (JNumber n) = True"
| "typeof_number v = False"

definition isNaN :: "jsvalue \<Rightarrow> bool" where
  "isNaN v = (toNumber v = NaN)"

text \<open>Reading index \<open>i\<close> of an array: \<open>undefined\<close> past its end.\<close>

definition element :: "jsvalue list \<Rightarrow> nat \<Rightarrow> jsvalue" where
  "element xs i = (if i < length xs then xs ! i else JUndefined)"

text \<open>Truthiness of a field that holds a string or is absent.\<close>

fun truthy :: "string option \<Rightarrow> bool" where
  "truthy None = False"
| "truthy (Some s) = (s \<noteq> [])"

text \<open>The decimal rendering of an array index inside a template string.\<close>

fun show_nat :: "nat \<Rightarrow> string" where
  "show_nat n =
     (if n < 10 then [''0123456789'' ! n]
      else show_nat (n div 10) @ [''0123456789'' ! (n mod 10)])"

declare show_nat.simps [simp del]

section \<open>The hierarchy tree (src/utils/dataProcessing.js)\<close>

text \<open>
  A node of the tree. A field that may be missing is an option; \<open>geometry.coordinates\<close> is
  an array or missing (\<open>None\<close>). \<open>filteredCount\<close> is the field \<open>_filteredCount\<close> that
  \<open>filterData\<close> writes.
\<close>

record property =
  propertyKey :: string
  propertyValue :: string

record geometry =
  coordinates :: "jsvalue list option"

datatype node = Node
  (node_id: "string option")
  (label: "string option")
  (properties: "property list option")
  (geometry: "geometry option")
  (children: "node list option")
  (filteredCount: "nat option")

record geo_data =
  data_type :: "string option"
  GeoLocations :: "node list option"

record filters =
  region :: "string option"
  location :: "string option"
  datacentre :: "string option"

definition getPropertyValue :: "node \<Rightarrow> string \<Rightarrow> string option" where
  "getPropertyValue node key =
     (case properties node of
        None \<Rightarrow> None
      | Some props \<Rightarrow>
          (case find (\<lambda>p. propertyKey p = key) props of
             None \<Rightarrow> None
           | Some prop \<Rightarrow> Some (propertyValue prop)))"

definition nodeMatchesRegion :: "node \<Rightarrow> string \<Rightarrow> bool" where
  "nodeMatchesRegion node reg =
     (if getPropertyValue node ''CategoryValue'' = Some reg then True
      else if label node = Some reg then True
      else False)"

definition nodeMatchesLocation :: "node \<Rightarrow> string \<Rightarrow> bool" where
  "nodeMatchesLocation node loc = (label node = Some loc)"

text \<open>
  \<open>matchesFilters\<close>: a filter key takes part when it is truthy and not \<open>'All'\<close>; the three
  checks return false in the order of the source.
\<close>

definition matchesFilters :: "node \<Rightarrow> filters \<Rightarrow> bool" where
  "matchesFilters node fs =
     (if truthy (region fs) \<and> region fs \<noteq> Some ''All'' \<and>
         \<not> (case region fs of Some reg \<Rightarrow> nodeMatchesRegion node reg | None \<Rightarrow> False)
      then False
      else if truthy (location fs) \<and> location fs \<noteq> Some ''All'' \<and>
         \<not> (case location fs of Some loc \<Rightarrow> nodeMatchesLocation node loc | None \<Rightarrow> False)
      then False
      else if truthy (datacentre fs) \<and> datacentre fs \<noteq> Some ''All'' \<and>
         label node \<noteq> datacentre fs
      then False
      else True)"

text \<open>
  The elements of \<open>children\<close> and of \<open>GeoLocations\<close> are nodes, so the guard \<open>if (!node)\<close>
  at the head of \<open>calculateCounts\<close> and of \<open>filterNode\<close> is never taken.
\<close>

fun calculateCounts :: "node \<Rightarrow> filters \<Rightarrow> nat" where
  "calculateCounts (Node i l p g c fc) fs =
     (case c of
        None \<Rightarrow> (if matchesFilters (Node i l p g c fc) fs then 1 else 0)
      | Some [] \<Rightarrow> (if matchesFilters (Node i l p g c fc) fs then 1 else 0)
      | Some (child # rest) \<Rightarrow>
          foldl (\<lambda>count ch. count + calculateCounts ch fs) 0 (child # rest))"

text \<open>\<open>.filter(child => child !== null)\<close> on the results of \<open>filterNode\<close>.\<close>

fun non_null :: "'a option list \<Rightarrow> 'a list" where
  "non_null [] = []"
| "non_null (None # xs) = non_null xs"
| "non_null (Some x # xs) = x # non_null xs"

text \<open>\<open>child._filteredCount || 1\<close>: an absent or zero count reads as 1.\<close>

definition filteredCount_or_1 :: "node \<Rightarrow> nat" where
  "filteredCount_or_1 child =
     (case filteredCount child of None \<Rightarrow> 1 | Some n \<Rightarrow> if n = 0 then 1 else n)"

fun filterNode :: "filters \<Rightarrow> node \<Rightarrow> int \<Rightarrow> node option" where
  "filterNode fs (Node i l p g c fc) level =
     (let matchesRegion =
            (\<not> truthy (region fs) \<or> region fs = Some ''All'' \<or>
             (case region fs of Some reg \<Rightarrow> nodeMatchesRegion (Node i l p g c fc) reg
              | None \<Rightarrow> False))
      in case c of
           Some (child # rest) \<Rightarrow>
             (let filteredChildren =
                    non_null (map (\<lambda>ch. filterNode fs ch (level + 1)) (child # rest))
              in if length filteredChildren > 0 then
                   Some (Node i l p g (Some filteredChildren)
                     (Some (foldl (\<lambda>sum ch. sum + filteredCount_or_1 ch) 0 filteredChildren)))
                 else if matchesRegion \<and> level = 1 then
                   Some (Node i l p g (Some []) (Some 0))
                 else None)
         | _ \<Rightarrow>
             (if matchesFilters (Node i l p g c fc) fs
              then Some (Node i l p g c (Some 1)) else None))"

definition filterData :: "geo_data option \<Rightarrow> filters \<Rightarrow> geo_data option" where
  "filterData data fs =
     (case data of
        None \<Rightarrow> data
      | Some d \<Rightarrow>
          (case GeoLocations d of
             None \<Rightarrow> data
           | Some locations \<Rightarrow>
               Some (d\<lparr> GeoLocations :=
                        Some (non_null (map (\<lambda>node. filterNode fs node 1) locations)) \<rparr>)))"

text \<open>
  \<open>getNodesAtLevel\<close>: each collected node is \<open>{ ...node, _parent: parent }\<close>, here the
  pair of the node and its parent (\<open>None\<close> for \<open>null\<close>).
\<close>

fun collectNodes :: "int \<Rightarrow> node \<Rightarrow> int \<Rightarrow> node option \<Rightarrow> (node \<times> node option) list" where
  "collectNodes level (Node i l p g c fc) currentLevel parent =
     (if currentLevel = level then [(Node i l p g c fc, parent)]
      else case c of
             None \<Rightarrow> []
           | Some cs \<Rightarrow>
               concat (map (\<lambda>child. collectNodes level child (currentLevel + 1)
                                      (Some (Node i l p g c fc))) cs))"

definition getNodesAtLevel :: "geo_data option \<Rightarrow> int \<Rightarrow> (node \<times> node option) list" where
  "getNodesAtLevel data level =
     (case data of
        None \<Rightarrow> []
      | Some d \<Rightarrow>
          (case GeoLocations d of
             None \<Rightarrow> []
           | Some locations \<Rightarrow> concat (map (\<lambda>node. collectNodes level node 1 None) locations)))"

text \<open>
  The loops of \<open>getChildrenOfNode\<close> return the first result that is not \<open>null\<close> (an
  array, also an empty one, is truthy).
\<close>

fun first_result :: "'a option list \<Rightarrow> 'a option" where
  "first_result [] = None"
| "first_result (None # rs) = first_result rs"
| "first_result (Some r # rs) = Some r"

fun findNode :: "string \<Rightarrow> node \<Rightarrow> node list option" where
  "findNode nodeId (Node i l p g c fc) =
     (if i = Some nodeId then (case c of None \<Rightarrow> Some [] | Some cs \<Rightarrow> Some cs)
      else case c of
             None \<Rightarrow> None
           | Some cs \<Rightarrow> first_result (map (findNode nodeId) cs))"

definition getChildrenOfNode :: "geo_data option \<Rightarrow> string \<Rightarrow> node list" where
  "getChildrenOfNode data nodeId =
     (case data of
        None \<Rightarrow> []
      | Some d \<Rightarrow>
          (case GeoLocations d of
             None \<Rightarrow> []
           | Some locations \<Rightarrow>
               (case first_result (map (findNode nodeId) locations) of
                  None \<Rightarrow> []
                | Some cs \<Rightarrow> cs)))"

text \<open>
  \<open>validateData\<close>. An error message is a template string; it is kept as a constructor
  with the interpolated coordinate and the path, which is the string the source builds.
\<close>

datatype validation_error =
  DataIsNullOrUndefined
| MissingOrInvalidGeoLocations
| MissingId string
| MissingLabel string
| MissingGeometry string
| InvalidCoordinates string
| InvalidLongitude jsvalue string
| InvalidLatitude jsvalue string

record validation =
  isValid :: bool
  errors :: "validation_error list"

text \<open>The checks of \<open>validateNode\<close> on the node itself, in the order they push.\<close>

definition validateFields :: "node \<Rightarrow> string \<Rightarrow> validation_error list" where
  "validateFields node path =
     (if \<not> truthy (node_id node) then [MissingId path] else []) @
     (if \<not> truthy (label node) then [MissingLabel path] else []) @
     (case geometry node of
        None \<Rightarrow> [MissingGeometry path]
      | Some geo \<Rightarrow>
          (case coordinates geo of
             None \<Rightarrow> [InvalidCoordinates path]
           | Some coords \<Rightarrow>
               if length coords < 2 then [InvalidCoordinates path]
               else
                 (let lon = element coords 0; lat = element coords 1 in
                  (if js_less lon (- 180) \<or> js_greater lon 180
                   then [InvalidLongitude lon path] else []) @
                  (if js_less lat (- 90) \<or> js_greater lat 90
                   then [InvalidLatitude lat path] else []))))"

function validateNode :: "node \<Rightarrow> string \<Rightarrow> validation_error list"
  and validateChildren :: "node list \<Rightarrow> nat \<Rightarrow> string \<Rightarrow> validation_error list" where
  "validateNode (Node i l p g c fc) path =
     validateFields (Node i l p g c fc) path @
     (case c of None \<Rightarrow> [] | Some cs \<Rightarrow> validateChildren cs 0 path)"
| "validateChildren [] i path = []"
| "validateChildren (child # rest) i path =
     validateNode child (path @ ''.children['' @ show_nat i @ '']'') @
     validateChildren rest (Suc i) path"
  by pat_completeness auto
termination
  by (relation "measure (\<lambda>x. case x of
                   Inl (node, path) \<Rightarrow> 2 * size node
                 | Inr (cs, i, path) \<Rightarrow> 2 * size_list size cs + 1)")
     auto

fun validateLocations :: "node list \<Rightarrow> nat \<Rightarrow> validation_error list" where
  "validateLocations [] i = []"
| "validateLocations (node # rest) i =
     validateNode node (''GeoLocations['' @ show_nat i @ '']'') @
     validateLocations rest (Suc i)"

definition validateData :: "geo_data option \<Rightarrow> validation" where
  "validateData data =
     (case data of
        None \<Rightarrow> \<lparr> isValid = False, errors = [DataIsNullOrUndefined] \<rparr>
      | Some d \<Rightarrow>
          (case GeoLocations d of
             None \<Rightarrow> \<lparr> isValid = False, errors = [MissingOrInvalidGeoLocations] \<rparr>
           | Some locations \<Rightarrow>
               (let errs = validateLocations locations 0
                in \<lparr> isValid = (length errs = 0), errors = errs \<rparr>)))"

section \<open>Coordinate check of the display path (src/utils/projection.js)\<close>

definition isValidCoordinate :: "jsvalue \<Rightarrow> jsvalue \<Rightarrow> bool" where
  "isValidCoordinate longitude latitude =
     (if \<not> typeof_number longitude \<or> \<not> typeof_number latitude then False
      else if isNaN longitude \<or> isNaN latitude then False
      else if js_less longitude (- 180) \<or> js_greater longitude 180 then False
      else if js_less latitude (- 90) \<or> js_greater latitude 90 then False
      else True)"

section \<open>The widget (class GeoMapWidget)\<close>

text \<open>
  The fields of the widget that its state transitions read and write. Drawing, the DOM
  and timers are left out; the callback \<open>onZoomLevelChange\<close> is the list of levels it was
  called with. A displayed marker is \<open>{ ...node, _level, _count }\<close>, with \<open>_parent\<close> when it
  comes from \<open>getNodesAtLevel\<close>.
\<close>

record shown_node =
  shown :: node
  shown_parent :: "node option"
  shown_level :: int
  shown_count :: nat

record transform =
  transform_k :: real
  transform_x :: real
  transform_y :: real

record zoom_thresholds =
  continent :: real
  country :: real
  city :: real

record widget_state =
  currentZoomLevel :: int
  activeFilters :: filters
  visibleMarkers :: "shown_node list"
  zoomTransform :: transform
  isTransitioning :: bool
  currentParentId :: "string option"

record widget =
  state :: widget_state
  originalData :: "geo_data option"
  filteredData :: "geo_data option"
  selectionManager :: "shown_node selection_manager"
  zoomThresholds :: zoom_thresholds
  zoomLevelChanges :: "int list"

definition new_GeoMapWidget :: "int option \<Rightarrow> widget" where
  "new_GeoMapWidget opt_maxSelections =
     \<lparr> state =
         \<lparr> currentZoomLevel = 1,
           activeFilters =
             \<lparr> region = Some ''All'', location = Some ''All'', datacentre = Some ''All'' \<rparr>,
           visibleMarkers = [],
           zoomTransform = \<lparr> transform_k = 1, transform_x = 0, transform_y = 0 \<rparr>,
           isTransitioning = False,
           currentParentId = None \<rparr>,
       originalData = None,
       filteredData = None,
       selectionManager =
         new_SelectionManager
           (Some (case opt_maxSelections of None \<Rightarrow> 10
                  | Some n \<Rightarrow> if n = 0 then 10 else n)),
       zoomThresholds = \<lparr> continent = 1, country = 2.5, city = 5 \<rparr>,
       zoomLevelChanges = [] \<rparr>"

text \<open>The filter of \<open>renderMarkers\<close> that drops nodes it cannot or need not draw.\<close>

definition isDisplayable :: "shown_node \<Rightarrow> bool" where
  "isDisplayable n =
     (case geometry (shown n) of
        None \<Rightarrow> False
      | Some geo \<Rightarrow>
          (case coordinates geo of
             None \<Rightarrow> False
           | Some coords \<Rightarrow>
               if \<not> isValidCoordinate (element coords 0) (element coords 1) then False
               else if shown_count n = 0 \<and>
                       (children (shown n) = None \<or> children (shown n) = Some [])
               then False
               else True))"

definition renderMarkers :: "widget \<Rightarrow> widget" where
  "renderMarkers w =
     (let level = currentZoomLevel (state w);
          data = filteredData w;
          nodesToShow =
            (case currentParentId (state w) of
               Some parentId \<Rightarrow>
                 if parentId \<noteq> [] \<and> level > 1 then
                   map (\<lambda>child. \<lparr> shown = child, shown_parent = None, shown_level = level,
                                  shown_count = calculateCounts child (activeFilters (state w)) \<rparr>)
                     (getChildrenOfNode data parentId)
                 else
                   map (\<lambda>(node, parent).
                          \<lparr> shown = node, shown_parent = parent, shown_level = level,
                            shown_count = calculateCounts node (activeFilters (state w)) \<rparr>)
                     (getNodesAtLevel data level)
             | None \<Rightarrow>
                 map (\<lambda>(node, parent).
                        \<lparr> shown = node, shown_parent = parent, shown_level = level,
                          shown_count = calculateCounts node (activeFilters (state w)) \<rparr>)
                   (getNodesAtLevel data level));
          visible = filter isDisplayable nodesToShow;
          visibleIds = non_null (map (\<lambda>n. node_id (shown n)) visible)
      in w\<lparr> state := (state w)\<lparr> visibleMarkers := visible \<rparr>,
            selectionManager := snd (pruneInvalidSelections (selectionManager w) visibleIds) \<rparr>)"

text \<open>
  \<open>transitionToLevel\<close>; the timer that clears \<open>isTransitioning\<close> after 500 ms is the
  separate step \<open>transitionTimeout\<close>.
\<close>

definition transitionToLevel :: "widget \<Rightarrow> int \<Rightarrow> int \<Rightarrow> widget" where
  "transitionToLevel w newLevel previousLevel =
     (if isTransitioning (state w) then w
      else
        let w1 = w\<lparr> state := (state w)\<lparr> isTransitioning := True \<rparr> \<rparr>;
            w2 = (if newLevel < previousLevel
                  then w1\<lparr> state := (state w1)\<lparr> currentParentId := None \<rparr> \<rparr>
                  else w1)
        in renderMarkers w2)"

definition transitionTimeout :: "widget \<Rightarrow> widget" where
  "transitionTimeout w = w\<lparr> state := (state w)\<lparr> isTransitioning := False \<rparr> \<rparr>"

definition handleZoom :: "widget \<Rightarrow> transform \<Rightarrow> widget" where
  "handleZoom w t =
     (let w1 = w\<lparr> state := (state w)\<lparr> zoomTransform := t \<rparr> \<rparr>;
          previousLevel = currentZoomLevel (state w1);
          newLevel =
            (if transform_k t \<ge> city (zoomThresholds w1) then 3
             else if transform_k t \<ge> country (zoomThresholds w1) then 2
             else 1)
      in if newLevel \<noteq> previousLevel then
           transitionToLevel
             (w1\<lparr> state := (state w1)\<lparr> currentZoomLevel := newLevel \<rparr>,
                  zoomLevelChanges := zoomLevelChanges w1 @ [newLevel] \<rparr>)
             newLevel previousLevel
         else w1)"

definition updateData :: "widget \<Rightarrow> geo_data option \<Rightarrow> bool \<times> widget" where
  "updateData w newData =
     (let validation = validateData newData in
      if \<not> isValid validation then (False, w)
      else
        (True,
         renderMarkers
           (w\<lparr> originalData := newData,
                filteredData := filterData newData (activeFilters (state w)) \<rparr>)))"

section \<open>Notions the properties are stated with\<close>

text \<open>The leaf descendants of a node, left to right: the nodes without children.\<close>

fun leaves :: "node \<Rightarrow> node list" where
  "leaves (Node i l p g c fc) =
     (case c of
        None \<Rightarrow> [Node i l p g c fc]
      | Some [] \<Rightarrow> [Node i l p g c fc]
      | Some (child # rest) \<Rightarrow> concat (map leaves (child # rest)))"

text \<open>A tree with the injected \<open>_filteredCount\<close> fields removed everywhere.\<close>

fun without_filteredCount :: "node \<Rightarrow> node" where
  "without_filteredCount (Node i l p g c fc) =
     Node i l p g
       (case c of None \<Rightarrow> None | Some cs \<Rightarrow> Some (map without_filteredCount cs))
       None"

definition data_without_filteredCount :: "geo_data option \<Rightarrow> geo_data option" where
  "data_without_filteredCount data =
     (case data of
        None \<Rightarrow> None
      | Some d \<Rightarrow>
          Some (d\<lparr> GeoLocations :=
                   (case GeoLocations d of
                      None \<Rightarrow> None
                    | Some locations \<Rightarrow> Some (map without_filteredCount locations)) \<rparr>))"

definition allFilters :: filters where
  "allFilters = \<lparr> region = Some ''All'', location = Some ''All'', datacentre = Some ''All'' \<rparr>"

definition emptyFilters :: filters where
  "emptyFilters = \<lparr> region = None, location = None, datacentre = None \<rparr>"


text \<open>A coordinate component that is a finite number within the given bounds.\<close>

fun in_range :: "jsvalue \<Rightarrow> real \<Rightarrow> real \<Rightarrow> bool" where
  "in_range (JNumber (Finite r)) lo hi = (lo \<le> r \<and> r \<le> hi)"
| "in_range v lo hi = False"


text \<open>
  A coordinate component that is not a proper number: not of type number, or \<open>NaN\<close>.
\<close>

definition not_numeric :: "jsvalue \<Rightarrow> bool" where
  "not_numeric v = (\<not> typeof_number v \<or> isNaN v)"

text \<open>Both range comparisons of a component with its bounds are false.\<close>

definition passes_range :: "jsvalue \<Rightarrow> real \<Rightarrow> real \<Rightarrow> bool" where
  "passes_range v lo hi = (\<not> js_less v lo \<and> \<not> js_greater v hi)"

text \<open>
  A component that is \<open>NaN\<close>, or another value that is not a proper number and for which
  both range comparisons are false.
\<close>

definition slips_through :: "jsvalue \<Rightarrow> real \<Rightarrow> real \<Rightarrow> bool" where
  "slips_through v lo hi = (not_numeric v \<and> passes_range v lo hi)"

text \<open>
  A tree all of whose nodes have a non-empty id and label and, as longitude and as
  latitude, either a number within the range or such a component.
\<close>

fun all_nodes_accepted :: "node \<Rightarrow> bool" where
  "all_nodes_accepted (Node i l p g c fc) =
     (truthy i \<and> truthy l \<and>
      (case g of
         None \<Rightarrow> False
       | Some geo \<Rightarrow>
           (case coordinates geo of
              None \<Rightarrow> False
            | Some coords \<Rightarrow>
                2 \<le> length coords \<and>
                (in_range (coords ! 0) (- 180) 180 \<or> slips_through (coords ! 0) (- 180) 180) \<and>
                (in_range (coords ! 1) (- 90) 90 \<or> slips_through (coords ! 1) (- 90) 90))) \<and>
      (case c of None \<Rightarrow> True | Some cs \<Rightarrow> list_all all_nodes_accepted cs))"

fun is_coordinate_error :: "validation_error \<Rightarrow> bool" where
  "is_coordinate_error (InvalidLongitude v path) = True"
| "is_coordinate_error (InvalidLatitude v path) = True"
| "is_coordinate_error e = False"

section \<open>Sample inputs\<close>

text \<open>Markers and a tree in the shape of the README's data format.\<close>

definition marker_a :: "unit marker" where
  "marker_a = \<lparr> marker_id = ''a'', marker_fields = () \<rparr>"

definition marker_b :: "unit marker" where
  "marker_b = \<lparr> marker_id = ''b'', marker_fields = () \<rparr>"

definition marker_c :: "unit marker" where
  "marker_c = \<lparr> marker_id = ''c'', marker_fields = () \<rparr>"

definition point :: "real \<Rightarrow> real \<Rightarrow> geometry option" where
  "point lon lat = Some \<lparr> coordinates = Some [JNumber (Finite lon), JNumber (Finite lat)] \<rparr>"

definition tokyo :: node where
  "tokyo = Node (Some ''city1'') (Some ''Tokyo DC'') None (point 139 35) None None"

definition mumbai :: node where
  "mumbai = Node (Some ''city2'') (Some ''Mumbai DC'') None (point 72 19) None None"

definition japan :: node where
  "japan = Node (Some ''country1'') (Some ''Japan'') None (point 138 36) (Some [tokyo]) None"

definition india :: node where
  "india = Node (Some ''country2'') (Some ''India'') None (point 78 20) (Some [mumbai]) None"

definition asia :: node where
  "asia = Node (Some ''continent1'') (Some ''Asia'')
     (Some [\<lparr> propertyKey = ''CategoryName'', propertyValue = ''Region'' \<rparr>,
            \<lparr> propertyKey = ''CategoryValue'', propertyValue = ''Asia'' \<rparr>])
     (point 100 34) (Some [japan, india]) None"

definition sample_data :: "geo_data option" where
  "sample_data = Some \<lparr> data_type = Some ''GeoLocations'', GeoLocations = Some [asia] \<rparr>"

text \<open>A tree whose second-level node has the coordinates \<open>[200, 10]\<close> and no label.\<close>

definition misplaced :: node where
  "misplaced = Node (Some ''country9'') None None (point 200 10) None None"

definition misplaced_data :: "geo_data option" where
  "misplaced_data =
     Some \<lparr> data_type = Some ''GeoLocations'',
            GeoLocations = Some [Node (Some ''continent1'') (Some ''Asia'') None (point 100 34)
                                   (Some [misplaced]) None] \<rparr>"

text \<open>
  Nodes whose coordinates are \<open>[NaN, undefined]\<close>, \<open>[NaN, 10]\<close> and \<open>['abc', null]\<close>, in a
  forest beside the valid tree, and a node whose coordinates are \<open>[NaN, 91]\<close>.
\<close>

definition unplaced :: node where
  "unplaced = Node (Some ''city7'') (Some ''Unplaced DC'') None
     (Some \<lparr> coordinates = Some [JNumber NaN, JUndefined] \<rparr>) None None"

definition adrift :: node where
  "adrift = Node (Some ''city8'') (Some ''Adrift DC'') None
     (Some \<lparr> coordinates = Some [JNumber NaN, JNumber (Finite 10)] \<rparr>) None None"

definition scrambled :: node where
  "scrambled = Node (Some ''city9'') (Some ''Scrambled DC'') None
     (Some \<lparr> coordinates = Some [JOther NaN, JNull] \<rparr>) None None"

definition unplaced_data :: "geo_data option" where
  "unplaced_data =
     Some \<lparr> data_type = Some ''GeoLocations'',
            GeoLocations = Some [asia, unplaced, adrift, scrambled] \<rparr>"

definition half_placed :: node where
  "half_placed = Node (Some ''city10'') (Some ''Half placed DC'') None
     (Some \<lparr> coordinates = Some [JNumber NaN, JNumber (Finite 91)] \<rparr>) None None"

definition half_placed_data :: "geo_data option" where
  "half_placed_data =
     Some \<lparr> data_type = Some ''GeoLocations'', GeoLocations = Some [half_placed] \<rparr>"

section \<open>Properties of the selection manager\<close>

lemma prune_loop_filter:
  "prune_loop keys E (m, changed) =
     (filter (\<lambda>(key, v). key \<notin> set keys \<or> key \<in> E) m,
      changed \<or> (\<exists>key \<in> set keys. key \<notin> E))"
proof (induction keys arbitrary: m changed)
  case Nil
  show ?case by (simp add: case_prod_unfold)
next
  case (Cons key keys)
  show ?case
    by (auto simp: Cons.IH AList.delete_eq case_prod_unfold intro!: filter_cong)
qed

lemma update_absent: "map_of al key = None \<Longrightarrow> AList.update key v al = al @ [(key, v)]"
  by (induction al) (auto split: if_splits)

lemma prune_loop_keys:
  "prune_loop (map fst m) E (m, False) =
     (filter (\<lambda>(key, v). key \<in> E) m, \<exists>key \<in> set (map fst m). key \<notin> E)"
proof -
  have "filter (\<lambda>(key, v). key \<notin> set (map fst m) \<or> key \<in> E) m = filter (\<lambda>(key, v). key \<in> E) m"
    by (rule filter_cong) (auto simp: rev_image_eqI)
  then show ?thesis
    by (simp only: prune_loop_filter simp_thms)
qed

lemma prune_selected:
  "snd (pruneInvalidSelections s ids) =
     (let m = filter (\<lambda>(key, v). key \<in> set ids) (selectedMarkers s);
          s2 = s\<lparr> selectedMarkers := m,
                  selectionHierarchyLevel := (if m = [] then None else selectionHierarchyLevel s) \<rparr>
      in if (\<exists>key \<in> set (map fst (selectedMarkers s)). key \<notin> set ids) then emitChange s2 else s2)"
  unfolding pruneInvalidSelections_def prune_loop_keys
  by (simp add: Let_def)

lemma inv_emitChange: "level_invariant (emitChange s) = level_invariant s"
  by (simp add: level_invariant_def emitChange_def)

lemma inv_clearSelection: "level_invariant (clearSelection s emit)"
  by (simp add: level_invariant_def clearSelection_def emitChange_def Let_def)

lemma inv_deselectMarker:
  "level_invariant s \<Longrightarrow> level_invariant (snd (deselectMarker s markerId))"
  by (auto simp: level_invariant_def deselectMarker_def emitChange_def Let_def AList.delete_eq
        list_all_iff filter_empty_conv split: option.splits)

lemma inv_pruneInvalidSelections:
  "level_invariant s \<Longrightarrow> level_invariant (snd (pruneInvalidSelections s ids))"
  unfolding prune_selected Let_def
  by (auto simp: level_invariant_def emitChange_def list_all_iff filter_empty_conv)

lemma inv_selectMarker:
  "level_invariant s \<Longrightarrow> level_invariant (snd (selectMarker s marker level multi))"
  unfolding selectMarker_def Let_def
  apply (simp only: split: if_splits)
  apply (intro conjI impI inv_deselectMarker)
  by (auto simp: level_invariant_def isSelectionCompatible_def clearSelection_def emitChange_def
        list_all_iff has_def update_absent split: if_splits)


lemma inv_perform: "level_invariant s \<Longrightarrow> level_invariant (perform s c)"
  by (cases c) (simp_all add: inv_selectMarker inv_deselectMarker inv_clearSelection
      inv_pruneInvalidSelections)

lemma inv_run: "level_invariant s \<Longrightarrow> level_invariant (run s calls)"
  unfolding run_def
  by (induction calls arbitrary: s) (simp_all add: inv_perform)

lemma inv_new: "level_invariant (new_SelectionManager opt)"
  by (simp add: level_invariant_def new_SelectionManager_def)

text \<open>
  Below the maximum, a call without multi-select for an unselected marker of the
  selection's level replaces the selection by that marker.
\<close>

lemma single_click_replaces_below_max:
  assumes "selectedMarkers s \<noteq> []"
    and "\<not> has (selectedMarkers s) (marker_id m)"
    and "selectionHierarchyLevel s = Some level"
    and "int (length (selectedMarkers s)) < maxSelections s"
  shows "fst (selectMarker s m level False) = ResultAdded m \<and>
         selectedMarkers (snd (selectMarker s m level False)) =
           [(marker_id m, \<lparr> source_marker = m, stored_level = level \<rparr>)] \<and>
         selectionHierarchyLevel (snd (selectMarker s m level False)) = Some level"
  using assms
  by (simp add: selectMarker_def isSelectionCompatible_def clearSelection_def emitChange_def
      Let_def)

text \<open>
  At the maximum the same call is rejected and changes nothing, whatever
  \<open>isMultiSelect\<close> is.
\<close>

lemma select_at_max_rejected:
  assumes "selectedMarkers s \<noteq> []"
    and "\<not> has (selectedMarkers s) (marker_id m)"
    and "selectionHierarchyLevel s = Some level"
    and "maxSelections s \<le> int (length (selectedMarkers s))"
  shows "selectMarker s m level isMultiSelect =
           (ResultFailed max_selections (Some (MaximumSelectionsReached (maxSelections s))), s)"
  using assms
  by (simp add: selectMarker_def isSelectionCompatible_def Let_def)

section \<open>Properties of the hierarchy tree\<close>

lemma foldl_plus: "foldl (\<lambda>count ch. count + f ch) a xs = a + sum_list (map f xs)"
  for a :: nat
  by (induction xs arbitrary: a) simp_all

lemma length_filter_concat:
  "length (filter P (concat xss)) = sum_list (map (\<lambda>xs. length (filter P xs)) xss)"
  by (induction xss) simp_all

lemma calculateCounts_leaves:
  "calculateCounts node fs = length (filter (\<lambda>leaf. matchesFilters leaf fs) (leaves node))"
proof (induction node fs rule: calculateCounts.induct)
  case (1 i l p g c fc fs)
  show ?case
  proof (cases c)
    case None
    then show ?thesis by simp
  next
    case (Some cs)
    show ?thesis
    proof (cases cs)
      case Nil
      with Some show ?thesis by simp
    next
      case (Cons child rest)
      have "sum_list (map (\<lambda>ch. calculateCounts ch fs) (child # rest)) =
            sum_list (map (\<lambda>ch. length (filter (\<lambda>leaf. matchesFilters leaf fs) (leaves ch)))
              (child # rest))"
        by (rule arg_cong [where f = sum_list], rule map_cong [OF refl])
           (rule "1.IH" [OF Some Cons])
      with Some Cons show ?thesis
        by (simp add: foldl_plus length_filter_concat o_def)
    qed
  qed
qed

lemma matchesFilters_all: "matchesFilters node allFilters"
  by (simp add: matchesFilters_def allFilters_def)

lemma non_null_map:
  "(\<And>x. x \<in> set xs \<Longrightarrow> \<exists>y. f x = Some y \<and> g y = h x) \<Longrightarrow>
   map g (non_null (map f xs)) = map h xs"
proof (induction xs)
  case Nil
  show ?case by simp
next
  case (Cons x xs)
  from Cons.prems [of x] obtain y where "f x = Some y" "g y = h x" by auto
  moreover have "map g (non_null (map f xs)) = map h xs"
    by (rule Cons.IH) (simp add: Cons.prems)
  ultimately show ?case by simp
qed

lemma filterNode_all:
  "\<exists>node'. filterNode allFilters node level = Some node' \<and>
     without_filteredCount node' = without_filteredCount node"
proof (induction node arbitrary: level)
  case (Node i l p g c fc)
  show ?case
  proof (cases c)
    case None
    then show ?thesis by (simp add: matchesFilters_all)
  next
    case (Some cs)
    show ?thesis
    proof (cases cs)
      case Nil
      with Some show ?thesis by (simp add: matchesFilters_all)
    next
      case (Cons child rest)
      let ?kept = "non_null (map (\<lambda>ch. filterNode allFilters ch (level + 1)) (child # rest))"
      have kept: "map without_filteredCount ?kept = map without_filteredCount (child # rest)"
        by (rule non_null_map) (rule Node.IH [of cs], simp_all add: Some Cons)
      then have "length ?kept = length (child # rest)"
        by (metis length_map)
      then have "0 < length ?kept" by simp
      with Some Cons kept show ?thesis
        by (simp add: Let_def)
    qed
  qed
qed

section \<open>Properties of validation and of the widget\<close>






lemma in_range_passes:
  "in_range v lo hi \<Longrightarrow> \<not> js_less v lo \<and> \<not> js_greater v hi"
  by (induction v lo hi rule: in_range.induct) (simp_all add: js_less_def js_greater_def)




lemma isNaN_slips_through: "isNaN v \<Longrightarrow> slips_through v lo hi"
  by (simp add: slips_through_def not_numeric_def passes_range_def isNaN_def js_less_def
      js_greater_def)

lemma accepted_passes:
  "in_range v lo hi \<or> slips_through v lo hi \<Longrightarrow> \<not> js_less v lo \<and> \<not> js_greater v hi"
  using in_range_passes [of v lo hi] by (auto simp: slips_through_def passes_range_def)

lemma validateFields_accepted:
  assumes "all_nodes_accepted node"
  shows "validateFields node path = []"
proof (cases node)
  case (Node i l p g c fc)
  with assms obtain geo coords where g: "g = Some geo" "coordinates geo = Some coords"
    and len: "2 \<le> length coords"
    and lon: "in_range (coords ! 0) (- 180) 180 \<or> slips_through (coords ! 0) (- 180) 180"
    and lat: "in_range (coords ! 1) (- 90) 90 \<or> slips_through (coords ! 1) (- 90) 90"
    and named: "truthy i" "truthy l"
    by (auto split: option.splits)
  from len have e: "element coords 0 = coords ! 0" "element coords (Suc 0) = coords ! Suc 0"
    by (auto simp: element_def)
  from accepted_passes [OF lon] accepted_passes [OF lat] g len named show ?thesis
    by (simp add: validateFields_def Node Let_def e)
qed

lemma accepted_no_errors:
  "(all_nodes_accepted node \<longrightarrow> validateNode node path = [])"
  "(list_all all_nodes_accepted cs \<longrightarrow> validateChildren cs i path = [])"
proof (induction node path and cs i path rule: validateNode_validateChildren.induct)
  case (1 i l p g c fc path)
  show ?case
  proof
    assume v: "all_nodes_accepted (Node i l p g c fc)"
    then have "validateFields (Node i l p g c fc) path = []"
      by (rule validateFields_accepted)
    moreover have "(case c of None \<Rightarrow> [] | Some cs \<Rightarrow> validateChildren cs 0 path) = []"
      using v "1.IH" by (cases c) auto
    ultimately show "validateNode (Node i l p g c fc) path = []" by simp
  qed
next
  case (2 i path)
  show ?case by simp
next
  case (3 child rest i path)
  then show ?case by simp
qed

lemma validateLocations_accepted:
  "list_all all_nodes_accepted locations \<Longrightarrow> validateLocations locations i = []"
  by (induction locations arbitrary: i) (simp_all add: accepted_no_errors)

lemma not_numeric_rejected:
  "not_numeric lon \<or> not_numeric lat \<Longrightarrow> \<not> isValidCoordinate lon lat"
  by (auto simp: not_numeric_def isValidCoordinate_def)

lemma renderMarkers_level:
  "currentZoomLevel (state (renderMarkers w)) = currentZoomLevel (state w)"
  by (simp add: renderMarkers_def Let_def)

lemma transitionToLevel_level:
  "currentZoomLevel (state (transitionToLevel w newLevel previousLevel)) =
   currentZoomLevel (state w)"
  by (simp add: transitionToLevel_def Let_def renderMarkers_level)

lemma handleZoom_level:
  "currentZoomLevel (state (handleZoom w t)) =
     (if transform_k t \<ge> city (zoomThresholds w) then 3
      else if transform_k t \<ge> country (zoomThresholds w) then 2
      else 1)"
  by (simp add: handleZoom_def Let_def transitionToLevel_level)

section \<open>The properties of the specification\<close>

text \<open>
  C1. Selection level invariant: after every sequence of \<open>selectMarker\<close>,
  \<open>deselectMarker\<close>, \<open>clearSelection\<close> and \<open>pruneInvalidSelections\<close> calls on a new
  manager, the map of selected markers is empty exactly when \<open>selectionHierarchyLevel\<close>
  is \<open>null\<close>, and every selected marker's stored \<open>_level\<close> is the selection level.
\<close>

theorem selection_level_invariant:
  "level_invariant (run (new_SelectionManager opt_maxSelections) calls)"
  by (rule inv_run [OF inv_new])

theorem selection_level_invariant_witness:
  "level_invariant
     (run (new_SelectionManager (Some 2))
        [SelectMarker marker_a 1 False, SelectMarker marker_b 1 True,
         PruneInvalidSelections [''b'', ''c''], SelectMarker marker_c 2 True,
         DeselectMarker ''c'', ClearSelection True]) \<and>
   selectedMarkers
     (run (new_SelectionManager (Some 2))
        [SelectMarker marker_a 1 False, SelectMarker marker_b 1 True,
         PruneInvalidSelections [''b'', ''c''], SelectMarker marker_c 2 True]) =
     [(''c'', \<lparr> source_marker = marker_c, stored_level = 2 \<rparr>)]"
proof -
  have "selectedMarkers
     (run (new_SelectionManager (Some 2))
        [SelectMarker marker_a 1 False, SelectMarker marker_b 1 True,
         PruneInvalidSelections [''b'', ''c''], SelectMarker marker_c 2 True]) =
     [(''c'', \<lparr> source_marker = marker_c, stored_level = (2::int) \<rparr>)]"
    by (simp add: run_def selectMarker_def isSelectionCompatible_def new_SelectionManager_def
        has_def emitChange_def clearSelection_def prune_selected marker_a_def marker_b_def
        marker_c_def Let_def)
  with selection_level_invariant [of "Some 2"
      "[SelectMarker marker_a 1 False, SelectMarker marker_b 1 True,
        PruneInvalidSelections [''b'', ''c''], SelectMarker marker_c 2 True,
        DeselectMarker ''c'', ClearSelection True]"]
  show ?thesis by simp
qed

text \<open>
  C2. A call \<open>selectMarker(m, level, false)\<close> for an unselected marker of the selection's
  level is meant to replace the selection by \<open>m\<close> alone. With \<open>maxSelections = 1\<close> and
  marker \<open>a\<close> selected at level 1, the call for marker \<open>b\<close> at level 1 is rejected with
  \<open>max_selections\<close> instead and \<open>a\<close> stays selected: \<open>isSelectionCompatible\<close> tests the
  maximum before \<open>selectMarker\<close> looks at \<open>isMultiSelect\<close>.
\<close>

theorem single_click_at_max_rejected:
  "selectMarker (run (new_SelectionManager (Some 1)) [SelectMarker marker_a 1 False])
     marker_b 1 False =
     (ResultFailed max_selections (Some (MaximumSelectionsReached 1)),
      run (new_SelectionManager (Some 1)) [SelectMarker marker_a 1 False]) \<and>
   getSelection (run (new_SelectionManager (Some 1)) [SelectMarker marker_a 1 False]) =
     [\<lparr> source_marker = marker_a, stored_level = 1 \<rparr>] \<and>
   selectionHierarchyLevel
     (run (new_SelectionManager (Some 1)) [SelectMarker marker_a 1 False]) = Some 1"
  by (simp add: run_def selectMarker_def isSelectionCompatible_def new_SelectionManager_def
      has_def emitChange_def getSelection_def marker_a_def marker_b_def Let_def)

text \<open>
  C3. Cross-level replace: when the selection is not empty and at level \<open>L1\<close>, selecting an
  unselected marker at another level \<open>L2\<close>, with or without multi-select, leaves exactly
  that marker selected at level \<open>L2\<close> and returns a successful result with action
  \<open>replaced\<close>.
\<close>

theorem cross_level_replace:
  assumes "selectedMarkers s \<noteq> []"
    and "\<not> has (selectedMarkers s) (marker_id m)"
    and "selectionHierarchyLevel s = Some L1"
    and "L2 \<noteq> L1"
  shows "fst (selectMarker s m L2 isMultiSelect) = ResultReplaced m True \<and>
         success (fst (selectMarker s m L2 isMultiSelect)) \<and>
         action_of (fst (selectMarker s m L2 isMultiSelect)) = Some replaced \<and>
         selectedMarkers (snd (selectMarker s m L2 isMultiSelect)) =
           [(marker_id m, \<lparr> source_marker = m, stored_level = L2 \<rparr>)] \<and>
         getSelection (snd (selectMarker s m L2 isMultiSelect)) =
           [\<lparr> source_marker = m, stored_level = L2 \<rparr>] \<and>
         selectionHierarchyLevel (snd (selectMarker s m L2 isMultiSelect)) = Some L2"
  using assms
  by (simp add: selectMarker_def isSelectionCompatible_def clearSelection_def emitChange_def
      getSelection_def Let_def)

theorem cross_level_replace_witness:
  "getSelection (run (new_SelectionManager None) [SelectMarker marker_a 1 False]) =
     [\<lparr> source_marker = marker_a, stored_level = 1 \<rparr>] \<and>
   getSelection
     (snd (selectMarker (run (new_SelectionManager None) [SelectMarker marker_a 1 False])
             marker_b 2 True)) =
     [\<lparr> source_marker = marker_b, stored_level = 2 \<rparr>]"
proof -
  let ?s = "run (new_SelectionManager None) [SelectMarker marker_a 1 False] :: unit selection_manager"
  have s: "selectedMarkers ?s = [(''a'', \<lparr> source_marker = marker_a, stored_level = 1 \<rparr>)]"
    "selectionHierarchyLevel ?s = Some 1"
    by (simp_all add: run_def selectMarker_def isSelectionCompatible_def
        new_SelectionManager_def has_def emitChange_def marker_a_def Let_def)
  have h1: "selectedMarkers ?s \<noteq> []" by (simp add: s)
  have h2: "\<not> has (selectedMarkers ?s) (marker_id marker_b)"
    by (simp add: s has_def marker_b_def)
  have h3: "selectionHierarchyLevel ?s = Some 1" by (simp add: s)
  have h4: "(2::int) \<noteq> 1" by simp
  from cross_level_replace [OF h1 h2 h3 h4, of True] s show ?thesis
    by (simp add: getSelection_def)
qed

text \<open>
  C4. Max-selection boundary: with \<open>maxSelections = 2\<close>, selecting three markers with
  distinct ids at one level with multi-select selects the first two; the third call
  fails with reason \<open>max_selections\<close> and returns the manager unchanged.
\<close>

theorem max_selection_boundary:
  assumes "marker_id a \<noteq> marker_id b"
    and "marker_id a \<noteq> marker_id c"
    and "marker_id b \<noteq> marker_id c"
  shows "getSelection (run (new_SelectionManager (Some 2))
                         [SelectMarker a level True, SelectMarker b level True]) =
           [\<lparr> source_marker = a, stored_level = level \<rparr>,
            \<lparr> source_marker = b, stored_level = level \<rparr>] \<and>
         selectMarker (run (new_SelectionManager (Some 2))
                         [SelectMarker a level True, SelectMarker b level True])
           c level True =
           (ResultFailed max_selections (Some (MaximumSelectionsReached 2)),
            run (new_SelectionManager (Some 2))
              [SelectMarker a level True, SelectMarker b level True]) \<and>
         getSelection (run (new_SelectionManager (Some 2))
                         [SelectMarker a level True, SelectMarker b level True,
                          SelectMarker c level True]) =
           [\<lparr> source_marker = a, stored_level = level \<rparr>,
            \<lparr> source_marker = b, stored_level = level \<rparr>]"
  using assms
  by (simp add: run_def selectMarker_def isSelectionCompatible_def new_SelectionManager_def
      has_def emitChange_def getSelection_def Let_def)

theorem max_selection_boundary_witness:
  "marker_id marker_a \<noteq> marker_id marker_b \<and> marker_id marker_a \<noteq> marker_id marker_c \<and>
   marker_id marker_b \<noteq> marker_id marker_c \<and>
   getSelection (run (new_SelectionManager (Some 2))
       [SelectMarker marker_a 3 True, SelectMarker marker_b 3 True,
        SelectMarker marker_c 3 True]) =
     [\<lparr> source_marker = marker_a, stored_level = 3 \<rparr>,
      \<lparr> source_marker = marker_b, stored_level = 3 \<rparr>]"
proof -
  have h1: "marker_id marker_a \<noteq> marker_id marker_b"
    and h2: "marker_id marker_a \<noteq> marker_id marker_c"
    and h3: "marker_id marker_b \<noteq> marker_id marker_c"
    by (simp_all add: marker_a_def marker_b_def marker_c_def)
  from max_selection_boundary [OF h1 h2 h3, of 3] h1 h2 h3 show ?thesis by simp
qed

text \<open>
  C5. Filter round-trip: \<open>filterData\<close> with the all-wildcard filter set
  \<open>{region: 'All', location: 'All', datacentre: 'All'}\<close> returns the input data with the
  same nodes in the same order and with the same children; the two differ only in the
  \<open>_filteredCount\<close> fields.
\<close>

theorem filter_round_trip:
  "data_without_filteredCount (filterData data allFilters) = data_without_filteredCount data"
proof (cases data)
  case None
  then show ?thesis by (simp add: filterData_def)
next
  case (Some d)
  note data = this
  show ?thesis
  proof (cases "GeoLocations d")
    case None
    with data show ?thesis by (simp add: filterData_def)
  next
    case (Some locations)
    have "map without_filteredCount
            (non_null (map (\<lambda>node. filterNode allFilters node 1) locations)) =
          map without_filteredCount locations"
      by (rule non_null_map) (rule filterNode_all)
    with Some data show ?thesis
      by (simp add: filterData_def data_without_filteredCount_def)
  qed
qed

theorem filter_round_trip_witness:
  "data_without_filteredCount (filterData sample_data allFilters) = sample_data \<and>
   filterData sample_data allFilters \<noteq> sample_data"
proof -
  have "data_without_filteredCount sample_data = sample_data"
    by (simp add: data_without_filteredCount_def sample_data_def asia_def japan_def india_def
        tokyo_def mumbai_def)
  moreover have "filterData sample_data allFilters \<noteq> sample_data"
    by (simp add: filterData_def sample_data_def asia_def japan_def india_def
        tokyo_def mumbai_def allFilters_def matchesFilters_def Let_def)
  ultimately show ?thesis
    using filter_round_trip [of sample_data] by simp
qed

text \<open>
  C6. Zoom-scale to level: after \<open>handleZoom\<close> the current level depends only on the scale
  \<open>transform.k\<close> and the thresholds, which are inclusive lower bounds: 3 from the city
  threshold on, else 2 from the country threshold on, else 1. The constructor sets the
  thresholds 2.5 and 5, with which the scales 1, 2.5, 4.99 and 5 give the levels 1, 2, 2
  and 3.
\<close>

theorem zoom_scale_to_level:
  "currentZoomLevel (state (handleZoom w t)) =
     (if transform_k t \<ge> city (zoomThresholds w) then 3
      else if transform_k t \<ge> country (zoomThresholds w) then 2
      else 1) \<and>
   zoomThresholds (new_GeoMapWidget opt_maxSelections) =
     \<lparr> continent = 1, country = 2.5, city = 5 \<rparr> \<and>
   currentZoomLevel (state (handleZoom (new_GeoMapWidget opt_maxSelections)
      \<lparr> transform_k = 1, transform_x = x, transform_y = y \<rparr>)) = 1 \<and>
   currentZoomLevel (state (handleZoom (new_GeoMapWidget opt_maxSelections)
      \<lparr> transform_k = 2.5, transform_x = x, transform_y = y \<rparr>)) = 2 \<and>
   currentZoomLevel (state (handleZoom (new_GeoMapWidget opt_maxSelections)
      \<lparr> transform_k = 4.99, transform_x = x, transform_y = y \<rparr>)) = 2 \<and>
   currentZoomLevel (state (handleZoom (new_GeoMapWidget opt_maxSelections)
      \<lparr> transform_k = 5, transform_x = x, transform_y = y \<rparr>)) = 3"
  by (simp add: handleZoom_level) (simp add: new_GeoMapWidget_def)

theorem zoom_scale_to_level_witness:
  "currentZoomLevel (state (handleZoom
      (handleZoom (new_GeoMapWidget None) \<lparr> transform_k = 6, transform_x = 0, transform_y = 0 \<rparr>)
      \<lparr> transform_k = 3, transform_x = 40, transform_y = 7 \<rparr>)) = 2"
proof -
  have "zoomThresholds
      (handleZoom (new_GeoMapWidget None) \<lparr> transform_k = 6, transform_x = 0, transform_y = 0 \<rparr>)
      = \<lparr> continent = 1, country = 2.5, city = 5 \<rparr>"
    by (simp add: handleZoom_def transitionToLevel_def renderMarkers_def new_GeoMapWidget_def
        Let_def)
  with zoom_scale_to_level [of
      "handleZoom (new_GeoMapWidget None) \<lparr> transform_k = 6, transform_x = 0, transform_y = 0 \<rparr>"
      "\<lparr> transform_k = 3, transform_x = 40, transform_y = 7 \<rparr>"]
  show ?thesis by simp
qed

text \<open>
  C7. Leaf count: \<open>calculateCounts\<close> is the number of leaf descendants that match the
  filters; a node without children counts 1 if it matches and 0 otherwise, a node with
  children counts the sum of its children's counts. For a region with two countries of
  one datacenter each, the count is 2 without filters and 1 with a datacentre filter
  that names the label of one of the two and not of the other.
\<close>

theorem leaf_count_correct:
  "calculateCounts node fs = length (filter (\<lambda>leaf. matchesFilters leaf fs) (leaves node)) \<and>
   (children node = None \<or> children node = Some [] \<longrightarrow>
      calculateCounts node fs = (if matchesFilters node fs then 1 else 0)) \<and>
   (\<forall>child rest. children node = Some (child # rest) \<longrightarrow>
      calculateCounts node fs = sum_list (map (\<lambda>ch. calculateCounts ch fs) (child # rest))) \<and>
   ((ca = None \<or> ca = Some []) \<and> (cb = None \<or> cb = Some []) \<and>
    la \<noteq> [] \<and> la \<noteq> ''All'' \<and> lb \<noteq> Some la \<longrightarrow>
      calculateCounts
        (Node ri rl rp rg
           (Some [Node i1 l1 p1 g1 (Some [Node ia (Some la) pa ga ca fa]) f1,
                  Node i2 l2 p2 g2 (Some [Node ib lb pb gb cb fb]) f2]) rf)
        emptyFilters = 2 \<and>
      calculateCounts
        (Node ri rl rp rg
           (Some [Node i1 l1 p1 g1 (Some [Node ia (Some la) pa ga ca fa]) f1,
                  Node i2 l2 p2 g2 (Some [Node ib lb pb gb cb fb]) f2]) rf)
        (emptyFilters\<lparr> datacentre := Some la \<rparr>) = 1)"
proof (intro conjI impI allI)
  show "calculateCounts node fs =
        length (filter (\<lambda>leaf. matchesFilters leaf fs) (leaves node))"
    by (rule calculateCounts_leaves)
next
  assume "children node = None \<or> children node = Some []"
  then show "calculateCounts node fs = (if matchesFilters node fs then 1 else 0)"
    by (cases node) auto
next
  fix child rest
  assume "children node = Some (child # rest)"
  then show "calculateCounts node fs =
             sum_list (map (\<lambda>ch. calculateCounts ch fs) (child # rest))"
    by (cases node) (simp add: foldl_plus)
next
  assume h: "(ca = None \<or> ca = Some []) \<and> (cb = None \<or> cb = Some []) \<and>
    la \<noteq> [] \<and> la \<noteq> ''All'' \<and> lb \<noteq> Some la"
  then show "calculateCounts
        (Node ri rl rp rg
           (Some [Node i1 l1 p1 g1 (Some [Node ia (Some la) pa ga ca fa]) f1,
                  Node i2 l2 p2 g2 (Some [Node ib lb pb gb cb fb]) f2]) rf)
        emptyFilters = 2"
    by (auto simp: matchesFilters_def emptyFilters_def)
  from h show "calculateCounts
        (Node ri rl rp rg
           (Some [Node i1 l1 p1 g1 (Some [Node ia (Some la) pa ga ca fa]) f1,
                  Node i2 l2 p2 g2 (Some [Node ib lb pb gb cb fb]) f2]) rf)
        (emptyFilters\<lparr> datacentre := Some la \<rparr>) = 1"
    by (auto simp: matchesFilters_def emptyFilters_def)
qed

theorem leaf_count_correct_witness:
  "calculateCounts asia emptyFilters = 2 \<and>
   calculateCounts asia (emptyFilters\<lparr> datacentre := Some ''Tokyo DC'' \<rparr>) = 1 \<and>
   calculateCounts asia emptyFilters =
     length (filter (\<lambda>leaf. matchesFilters leaf emptyFilters) (leaves asia)) \<and>
   leaves asia = [tokyo, mumbai]"
proof -
  have h: "((None :: node list option) = None \<or> (None :: node list option) = Some []) \<and>
     ((None :: node list option) = None \<or> (None :: node list option) = Some []) \<and>
     ''Tokyo DC'' \<noteq> [] \<and> ''Tokyo DC'' \<noteq> ''All'' \<and> Some ''Mumbai DC'' \<noteq> Some ''Tokyo DC''"
    by simp
  have l: "leaves asia = [tokyo, mumbai]"
    by (simp add: asia_def japan_def india_def tokyo_def mumbai_def)
  have a: "asia =
      Node (Some ''continent1'') (Some ''Asia'')
        (Some [\<lparr> propertyKey = ''CategoryName'', propertyValue = ''Region'' \<rparr>,
               \<lparr> propertyKey = ''CategoryValue'', propertyValue = ''Asia'' \<rparr>])
        (point 100 34)
        (Some [Node (Some ''country1'') (Some ''Japan'') None (point 138 36)
                 (Some [Node (Some ''city1'') (Some ''Tokyo DC'') None (point 139 35) None None])
                 None,
               Node (Some ''country2'') (Some ''India'') None (point 78 20)
                 (Some [Node (Some ''city2'') (Some ''Mumbai DC'') None (point 72 19) None None])
                 None])
        None"
    by (simp add: asia_def japan_def india_def tokyo_def mumbai_def)
  note v = leaf_count_correct
    [where node = asia and fs = emptyFilters and ca = None and cb = None
       and la = "''Tokyo DC''" and lb = "Some ''Mumbai DC''"
       and ri = "Some ''continent1''" and rl = "Some ''Asia''"
       and rp = "Some [\<lparr> propertyKey = ''CategoryName'', propertyValue = ''Region'' \<rparr>,
                       \<lparr> propertyKey = ''CategoryValue'', propertyValue = ''Asia'' \<rparr>]"
       and rg = "point 100 34" and rf = None
       and ?i1.0 = "Some ''country1''" and ?l1.0 = "Some ''Japan''" and ?p1.0 = None
       and ?g1.0 = "point 138 36" and ?f1.0 = None
       and ia = "Some ''city1''" and pa = None and ga = "point 139 35" and fa = None
       and ?i2.0 = "Some ''country2''" and ?l2.0 = "Some ''India''" and ?p2.0 = None
       and ?g2.0 = "point 78 20" and ?f2.0 = None
       and ib = "Some ''city2''" and pb = None and gb = "point 72 19" and fb = None,
     folded a]
  from v h l show ?thesis by blast
qed



text \<open>
  C9. Failed update: when the new data does not pass \<open>validateData\<close>, \<open>updateData\<close> returns
  false and the widget is as before, in particular \<open>originalData\<close>, \<open>filteredData\<close>, the
  active filters and the selection.
\<close>

theorem updateData_invalid_keeps_state:
  assumes "\<not> isValid (validateData newData)"
  shows "updateData w newData = (False, w) \<and>
         originalData (snd (updateData w newData)) = originalData w \<and>
         filteredData (snd (updateData w newData)) = filteredData w \<and>
         activeFilters (state (snd (updateData w newData))) = activeFilters (state w) \<and>
         selectionManager (snd (updateData w newData)) = selectionManager w"
  using assms by (simp add: updateData_def Let_def)


theorem updateData_invalid_keeps_state_witness:
  "\<not> isValid (validateData misplaced_data) \<and>
   originalData (snd (updateData (new_GeoMapWidget None) sample_data)) = sample_data \<and>
   updateData (snd (updateData (new_GeoMapWidget None) sample_data)) misplaced_data =
     (False, snd (updateData (new_GeoMapWidget None) sample_data)) \<and>
   originalData
     (snd (updateData (snd (updateData (new_GeoMapWidget None) sample_data)) misplaced_data)) =
     sample_data"
proof -
  have h: "\<not> isValid (validateData misplaced_data)"
    by (simp add: validateData_def misplaced_data_def misplaced_def point_def
        validateFields_def element_def js_less_def js_greater_def Let_def)
  have "isValid (validateData sample_data)"
    by (simp add: validateData_def sample_data_def asia_def japan_def india_def tokyo_def
        mumbai_def point_def validateFields_def element_def js_less_def js_greater_def Let_def)
  then have o: "originalData (snd (updateData (new_GeoMapWidget None) sample_data)) = sample_data"
    by (simp add: updateData_def renderMarkers_def Let_def)
  from updateData_invalid_keeps_state
    [OF h, of "snd (updateData (new_GeoMapWidget None) sample_data)"] h o
  show ?thesis by simp
qed

text \<open>
  C10. Coordinates that are not proper numbers. For a node whose coordinates array has
  at least two components, a longitude that is \<open>NaN\<close>, or another value that is not a proper
  number and for which both range comparisons are false, gives no longitude error in
  \<open>validateData\<close>, and likewise a latitude gives no latitude error, while
  \<open>isValidCoordinate\<close> rejects the pair and \<open>renderMarkers\<close> drops the node. The other
  component is still range-checked and gives its error when it is out of range. A tree
  in which every node has an id, a label and, as each of the two components, a number
  within the range or such a value, is reported valid. Every value that converts to
  \<open>NaN\<close> is such a value.
\<close>

theorem validation_skips_not_numeric_component:
  "(geometry node = Some geo \<and> coordinates geo = Some coords \<and> 2 \<le> length coords \<and>
    slips_through (coords ! 0) (- 180) 180 \<longrightarrow>
      (\<forall>v. InvalidLongitude v path \<notin> set (validateFields node path)) \<and>
      \<not> isValidCoordinate (element coords 0) (element coords 1) \<and>
      (\<forall>n. shown n = node \<longrightarrow> \<not> isDisplayable n)) \<and>
   (geometry node = Some geo \<and> coordinates geo = Some coords \<and> 2 \<le> length coords \<and>
    slips_through (coords ! 1) (- 90) 90 \<longrightarrow>
      (\<forall>v. InvalidLatitude v path \<notin> set (validateFields node path)) \<and>
      \<not> isValidCoordinate (element coords 0) (element coords 1) \<and>
      (\<forall>n. shown n = node \<longrightarrow> \<not> isDisplayable n)) \<and>
   (geometry node = Some geo \<and> coordinates geo = Some coords \<and> 2 \<le> length coords \<and>
    (js_less (coords ! 0) (- 180) \<or> js_greater (coords ! 0) 180) \<longrightarrow>
      InvalidLongitude (coords ! 0) path \<in> set (validateFields node path)) \<and>
   (geometry node = Some geo \<and> coordinates geo = Some coords \<and> 2 \<le> length coords \<and>
    (js_less (coords ! 1) (- 90) \<or> js_greater (coords ! 1) 90) \<longrightarrow>
      InvalidLatitude (coords ! 1) path \<in> set (validateFields node path)) \<and>
   (GeoLocations d = Some locations \<and> list_all all_nodes_accepted locations \<longrightarrow>
      isValid (validateData (Some d)) \<and> errors (validateData (Some d)) = []) \<and>
   (isNaN v \<longrightarrow> slips_through v lo hi) \<and>
   (not_numeric lon \<or> not_numeric lat \<longrightarrow> \<not> isValidCoordinate lon lat)"
proof (intro conjI impI)
  assume h: "geometry node = Some geo \<and> coordinates geo = Some coords \<and> 2 \<le> length coords \<and>
    slips_through (coords ! 0) (- 180) 180"
  then have e: "element coords 0 = coords ! 0" "element coords 1 = coords ! 1"
    by (auto simp: element_def)
  from h show "\<forall>v. InvalidLongitude v path \<notin> set (validateFields node path)"
    by (auto simp: validateFields_def element_def Let_def slips_through_def passes_range_def)
  from h show r: "\<not> isValidCoordinate (element coords 0) (element coords 1)"
    unfolding e by (simp add: not_numeric_rejected slips_through_def)
  from h r show "\<forall>n. shown n = node \<longrightarrow> \<not> isDisplayable n"
    by (auto simp: isDisplayable_def)
next
  assume h: "geometry node = Some geo \<and> coordinates geo = Some coords \<and> 2 \<le> length coords \<and>
    slips_through (coords ! 1) (- 90) 90"
  then have e: "element coords 0 = coords ! 0" "element coords 1 = coords ! 1"
    by (auto simp: element_def)
  from h show "\<forall>v. InvalidLatitude v path \<notin> set (validateFields node path)"
    by (auto simp: validateFields_def element_def Let_def slips_through_def passes_range_def)
  from h show r: "\<not> isValidCoordinate (element coords 0) (element coords 1)"
    unfolding e by (simp add: not_numeric_rejected slips_through_def)
  from h r show "\<forall>n. shown n = node \<longrightarrow> \<not> isDisplayable n"
    by (auto simp: isDisplayable_def)
next
  assume "geometry node = Some geo \<and> coordinates geo = Some coords \<and> 2 \<le> length coords \<and>
    (js_less (coords ! 0) (- 180) \<or> js_greater (coords ! 0) 180)"
  then show "InvalidLongitude (coords ! 0) path \<in> set (validateFields node path)"
    by (auto simp: validateFields_def element_def Let_def)
next
  assume "geometry node = Some geo \<and> coordinates geo = Some coords \<and> 2 \<le> length coords \<and>
    (js_less (coords ! 1) (- 90) \<or> js_greater (coords ! 1) 90)"
  then show "InvalidLatitude (coords ! 1) path \<in> set (validateFields node path)"
    by (auto simp: validateFields_def element_def Let_def)
next
  assume h: "GeoLocations d = Some locations \<and> list_all all_nodes_accepted locations"
  then have "validateLocations locations 0 = []"
    by (simp add: validateLocations_accepted)
  with h show "isValid (validateData (Some d))" and "errors (validateData (Some d)) = []"
    by (simp_all add: validateData_def Let_def)
next
  assume "isNaN v"
  then show "slips_through v lo hi" by (rule isNaN_slips_through)
next
  assume "not_numeric lon \<or> not_numeric lat"
  then show "\<not> isValidCoordinate lon lat" by (rule not_numeric_rejected)
qed

theorem validation_skips_not_numeric_component_witness:
  "isValid (validateData unplaced_data) \<and>
   slips_through (JNumber NaN) (- 180) 180 \<and>
   \<not> isValidCoordinate (JNumber NaN) (JNumber (Finite 10)) \<and>
   InvalidLatitude (JNumber (Finite 91)) ''GeoLocations[0]''
     \<in> set (validateFields half_placed ''GeoLocations[0]'') \<and>
   fst (updateData (new_GeoMapWidget None) unplaced_data) \<and>
   map (\<lambda>n. node_id (shown n))
     (visibleMarkers (state (snd (updateData (new_GeoMapWidget None) unplaced_data)))) =
     [Some ''continent1'']"
proof -
  have nan: "isNaN (JNumber NaN)" "isNaN JUndefined" "isNaN (JOther NaN)"
    by (simp_all add: isNaN_def)
  note s = validation_skips_not_numeric_component
    [where v = "JNumber NaN" and lo = "- 180" and hi = 180]
  from s nan have slip: "slips_through (JNumber NaN) (- 180) 180"
    by blast
  have null: "slips_through JNull (- 90) 90"
    by (simp add: slips_through_def not_numeric_def passes_range_def js_less_def
        js_greater_def)
  have g: "GeoLocations \<lparr> data_type = Some ''GeoLocations'',
                         GeoLocations = Some [asia, unplaced, adrift, scrambled] \<rparr> =
      Some [asia, unplaced, adrift, scrambled] \<and>
      list_all all_nodes_accepted [asia, unplaced, adrift, scrambled]"
    by (simp add: asia_def japan_def india_def tokyo_def mumbai_def point_def unplaced_def
        adrift_def scrambled_def nan isNaN_slips_through null)
  note t = validation_skips_not_numeric_component
    [where d = "\<lparr> data_type = Some ''GeoLocations'',
                    GeoLocations = Some [asia, unplaced, adrift, scrambled] \<rparr>"
       and locations = "[asia, unplaced, adrift, scrambled]"
       and lon = "JNumber NaN" and lat = "JNumber (Finite 10)"
       and node = half_placed
       and geo = "\<lparr> coordinates = Some [JNumber NaN, JNumber (Finite 91)] \<rparr>"
       and coords = "[JNumber NaN, JNumber (Finite 91)]"
       and path = "''GeoLocations[0]''"]
  from t g have valid: "isValid (validateData unplaced_data)"
    unfolding unplaced_data_def [symmetric] by blast
  have "not_numeric (JNumber NaN) \<or> not_numeric (JNumber (Finite 10))"
    by (simp add: not_numeric_def isNaN_def)
  with t have rejected: "\<not> isValidCoordinate (JNumber NaN) (JNumber (Finite 10))"
    by blast
  have "geometry half_placed = Some \<lparr> coordinates = Some [JNumber NaN, JNumber (Finite 91)] \<rparr> \<and>
      coordinates \<lparr> coordinates = Some [JNumber NaN, JNumber (Finite 91)] \<rparr> =
        Some [JNumber NaN, JNumber (Finite 91)] \<and>
      2 \<le> length [JNumber NaN, JNumber (Finite 91)] \<and>
      (js_less ([JNumber NaN, JNumber (Finite 91)] ! 1) (- 90) \<or>
       js_greater ([JNumber NaN, JNumber (Finite 91)] ! 1) 90)"
    by (simp add: half_placed_def js_greater_def)
  with t have "InvalidLatitude ([JNumber NaN, JNumber (Finite 91)] ! 1) ''GeoLocations[0]''
      \<in> set (validateFields half_placed ''GeoLocations[0]'')"
    by blast
  then have latitude: "InvalidLatitude (JNumber (Finite 91)) ''GeoLocations[0]''
      \<in> set (validateFields half_placed ''GeoLocations[0]'')"
    by simp
  from valid have accepted: "fst (updateData (new_GeoMapWidget None) unplaced_data)"
    by (simp add: updateData_def Let_def)
  from valid
  have shown: "map (\<lambda>n. node_id (shown n))
     (visibleMarkers (state (snd (updateData (new_GeoMapWidget None) unplaced_data)))) =
     [Some ''continent1'']"
    by (simp add: updateData_def renderMarkers_def new_GeoMapWidget_def filterData_def
        getNodesAtLevel_def unplaced_data_def unplaced_def adrift_def scrambled_def asia_def
        japan_def india_def tokyo_def mumbai_def point_def matchesFilters_def
        isDisplayable_def isValidCoordinate_def isNaN_def js_less_def js_greater_def
        element_def filteredCount_or_1_def Let_def)
  from valid slip rejected latitude accepted shown show ?thesis by blast
qed

text \<open>
  As the claim is worded, with no longitude or latitude error for a node as soon as one
  component is \<open>NaN\<close>, it fails at the coordinates \<open>[NaN, 91]\<close>: the latitude error is
  reported and the data is invalid.
\<close>

theorem NaN_beside_out_of_range_counterexample:
  "geometry half_placed =
     Some \<lparr> coordinates = Some [JNumber NaN, JNumber (Finite 91)] \<rparr> \<and>
   errors (validateData half_placed_data) =
     [InvalidLatitude (JNumber (Finite 91)) ''GeoLocations[0]''] \<and>
   list_ex is_coordinate_error (errors (validateData half_placed_data)) \<and>
   \<not> isValid (validateData half_placed_data)"
  by (simp add: validateData_def half_placed_data_def half_placed_def validateFields_def
      element_def js_less_def js_greater_def show_nat.simps Let_def)

end
